theory Spec2Isabelle
  imports Main "HOL-Library.Word"
begin

unbundle bit_operations_syntax

section \<open>Data model\<close>

text \<open>
  The neighbor routing extension of the daemon
  (\<^verbatim>\<open>daemon/src/routing/NeighborRoutingExtension.cpp\<close>) works on endpoint identifiers,
  bundle identities, bundle metadata and the entries of the neighbor database. Their
  classes are declared outside the two source files at hand; the records below carry the
  members the extension reads.
\<close>

text \<open>
  Modelled from the spec: the class \<^verbatim>\<open>dtn::data::EID\<close> is missing. The spec describes an
  opaque name with a node component and an optional application suffix, and an operation
  extracting the node component by stripping the application suffix.
\<close>

datatype EID = EID (node: string) (application: string)

definition getNode :: "EID \<Rightarrow> EID" where
  "getNode e = EID (node e) []"

text \<open>
  \<^verbatim>\<open>dtn::data::BundleID\<close>: source, creation timestamp and sequence number identify a bundle.
  \<^verbatim>\<open>dtn::data::MetaBundle\<close> derives from it and adds the members the routing decision
  reads: \<^verbatim>\<open>destination\<close>, \<^verbatim>\<open>procflags\<close> and \<^verbatim>\<open>hopcount\<close> (both \<^verbatim>\<open>size_t\<close>).
\<close>

record BundleID =
  source :: EID
  timestamp :: nat
  sequencenumber :: nat

record MetaBundle = BundleID +
  destination :: EID
  procflags :: "64 word"
  hopcount :: "64 word"

text \<open>The conversion of a \<^verbatim>\<open>MetaBundle\<close> to its base class \<^verbatim>\<open>BundleID\<close>.\<close>

definition toBundleID :: "MetaBundle \<Rightarrow> BundleID" where
  "toBundleID m = \<lparr>source = source m, timestamp = timestamp m, sequencenumber = sequencenumber m\<rparr>"

text \<open>
  Modelled from the spec: the enumeration holding \<^verbatim>\<open>DESTINATION_IS_SINGLETON\<close> is missing.
  The spec only says that the metadata carries a destination-is-singleton flag; the mask
  is bit 4 of the processing flags, as in the bundle protocol's primary block. No theorem
  below depends on the position of the bit.
\<close>

definition DESTINATION_IS_SINGLETON :: "64 word" where
  "DESTINATION_IS_SINGLETON = push_bit 4 1"

text \<open>\<^verbatim>\<open>MetaBundle::get(flag)\<close> and the test \<^verbatim>\<open>meta.procflags & flag\<close> used as a condition.\<close>

definition get_flag :: "MetaBundle \<Rightarrow> 64 word \<Rightarrow> bool" where
  "get_flag m flag = (procflags m AND flag \<noteq> 0)"

text \<open>
  Modelled from the spec: the class \<^verbatim>\<open>NeighborDatabase::NeighborEntry\<close> is missing. The spec
  gives it the neighbor's identifier, the known-bundle set (bundle identities confirmed
  present at the neighbor) and the in-transit set (bundle identities being transferred to
  the neighbor). \<^verbatim>\<open>has\<close> is the spec's \<^verbatim>\<open>has_known\<close>.
\<close>

record NeighborEntry =
  eid :: EID
  known :: "BundleID set"
  transit :: "BundleID set"

definition has :: "NeighborEntry \<Rightarrow> MetaBundle \<Rightarrow> bool" where
  "has entry m = (toBundleID m \<in> known entry)"

section \<open>Bundle candidate filter\<close>

text \<open>
  The local class \<^verbatim>\<open>BundleFilter\<close> of \<^verbatim>\<open>NeighborRoutingExtension::run\<close>. It is built from a
  neighbor entry; \<^verbatim>\<open>dtn::core::BundleCore::local\<close>, a global of the daemon, is the
  parameter \<open>local\<close>.
\<close>

definition limit :: "NeighborEntry \<Rightarrow> nat" where
  "limit entry = 10"

definition shouldAdd :: "EID \<Rightarrow> NeighborEntry \<Rightarrow> MetaBundle \<Rightarrow> bool" where
  "shouldAdd local entry m =
     (if hopcount m = 0 then False
      else if get_flag m DESTINATION_IS_SINGLETON then
        (if getNode (destination m) = local then False
         else if getNode (eid entry) \<noteq> getNode (destination m) then False
         else if has entry m then False
         else True)
      else if has entry m then False
      else True)"

section \<open>External bundle store\<close>

text \<open>
  Modelled from the spec: the class \<^verbatim>\<open>dtn::storage::BundleStorage\<close> is missing. The spec
  lists the three operations the extension consumes: \<^verbatim>\<open>get(bundle_id)\<close> and
  \<^verbatim>\<open>remove(bundle_id)\<close>, both failing with not-found when the bundle is absent, and the
  bounded query, which returns at most \<^verbatim>\<open>max_count\<close> bundles satisfying the predicate. The
  store is the list of the metadata it holds; \<open>None\<close> stands for
  \<^verbatim>\<open>NoBundleFoundException\<close>.
\<close>

type_synonym BundleStorage = "MetaBundle list"

definition storage_get :: "BundleStorage \<Rightarrow> BundleID \<Rightarrow> MetaBundle option" where
  "storage_get st i = find (\<lambda>m. toBundleID m = i) st"

definition storage_remove :: "BundleStorage \<Rightarrow> BundleID \<Rightarrow> BundleStorage option" where
  "storage_remove st i =
     (case storage_get st i of
        None \<Rightarrow> None
      | Some _ \<Rightarrow> Some (filter (\<lambda>m. toBundleID m \<noteq> i) st))"

definition storage_query :: "(MetaBundle \<Rightarrow> bool) \<Rightarrow> nat \<Rightarrow> BundleStorage \<Rightarrow> MetaBundle list" where
  "storage_query p n st = take n (filter p st)"

section \<open>Events, tasks and the state of the extension\<close>

text \<open>
  The events \<^verbatim>\<open>notify\<close> tells apart by \<^verbatim>\<open>dynamic_cast\<close>, with the members it reads; their
  classes are declared outside the sources at hand. \<open>OtherEvent\<close> is any event of another
  class. The abort reasons are the five labels of the \<^verbatim>\<open>switch\<close> in \<^verbatim>\<open>notify\<close>. Of the
  node actions and the connection states \<^verbatim>\<open>notify\<close> names \<^verbatim>\<open>NODE_AVAILABLE\<close> and
  \<^verbatim>\<open>CONNECTION_UP\<close> only; the second constructor of each datatype stands for the other
  values, the spec's unavailable neighbor among them.
\<close>

datatype AbortReason =
    REASON_UNDEFINED
  | REASON_RETRY_LIMIT_REACHED
  | REASON_BUNDLE_DELETED
  | REASON_CONNECTION_DOWN
  | REASON_REFUSED

datatype EventNodeAction = NODE_AVAILABLE | NODE_UNAVAILABLE

datatype ConnectionState = CONNECTION_UP | CONNECTION_DOWN

datatype Node = Node (getEID: EID)

datatype Event =
    QueueBundleEvent MetaBundle EID
  | TransferCompletedEvent EID MetaBundle
  | TransferAbortedEvent EID BundleID AbortReason
  | NodeEvent Node EventNodeAction
  | ConnectionEvent ConnectionState EID
  | OtherEvent

datatype Task =
    SearchNextBundleTask EID
  | ProcessBundleTask MetaBundle EID

text \<open>
  What the extension emits: the bundle event raised after a delivery
  (\<^verbatim>\<open>BundleEvent::raise(meta, BUNDLE_DELETED, DEPLETED_STORAGE)\<close>) and two log messages, the
  notice written after a delivery and the message written when the worker loop gives up.
  The two progress traces of the worker loop are left out.
\<close>

datatype EventBundleAction = BUNDLE_DELETED

datatype ReasonCode = DEPLETED_STORAGE

datatype BundleEvent = BundleEvent MetaBundle EventBundleAction ReasonCode

datatype error =
    AlreadyInTransitException
  | NoMoreTransfersAvailable
  | NeighborNotAvailableException
  | NoBundleFoundException
  | bad_cast
  | std_exception string

datatype LogLine =
    singleton_bundle_delivered_and_removed MetaBundle
  | neighbor_routing_failed error

type_synonym NeighborDatabase = "EID \<rightharpoonup> NeighborEntry"

record Extension =
  storage :: BundleStorage
  neighbordb :: NeighborDatabase
  taskqueue :: "Task list"
  raised :: "BundleEvent list"
  logged :: "LogLine list"

text \<open>\<^verbatim>\<open>_taskqueue.push\<close>: the queue is first in, first out.\<close>

definition push :: "Task \<Rightarrow> Extension \<Rightarrow> Extension" where
  "push t s = s\<lparr>taskqueue := taskqueue s @ [t]\<rparr>"

section \<open>Event translator\<close>

text \<open>
  \<^verbatim>\<open>NeighborRoutingExtension::notify\<close>. Each \<^verbatim>\<open>try\<close> block with its \<^verbatim>\<open>dynamic_cast\<close> is one
  equation. The only exception the store of the spec raises is the not-found one, which
  both handlers catch, so \<open>notify\<close> always returns a state.
\<close>

fun notify :: "Event \<Rightarrow> Extension \<Rightarrow> Extension" where
  "notify (QueueBundleEvent bundle origin) s = push (ProcessBundleTask bundle origin) s"
| "notify (TransferCompletedEvent peer meta) s =
     (if getNode (destination meta) = getNode peer \<and> get_flag meta DESTINATION_IS_SINGLETON then
        push (SearchNextBundleTask peer)
          (case storage_remove (storage s) (toBundleID meta) of
             Some st \<Rightarrow>
               s\<lparr>storage := st,
                 logged := logged s @ [singleton_bundle_delivered_and_removed meta],
                 raised := raised s @ [BundleEvent meta BUNDLE_DELETED DEPLETED_STORAGE]\<rparr>
           | None \<Rightarrow> s)
      else s)"
| "notify (TransferAbortedEvent peer i reason) s =
     (case reason of
        REASON_UNDEFINED \<Rightarrow> push (SearchNextBundleTask peer) s
      | REASON_RETRY_LIMIT_REACHED \<Rightarrow> push (SearchNextBundleTask peer) s
      | REASON_BUNDLE_DELETED \<Rightarrow> push (SearchNextBundleTask peer) s
      | REASON_CONNECTION_DOWN \<Rightarrow> s
      | REASON_REFUSED \<Rightarrow>
          push (SearchNextBundleTask peer)
            (case storage_get (storage s) i of
               Some meta \<Rightarrow>
                 (if getNode (destination meta) = getNode peer
                     \<and> get_flag meta DESTINATION_IS_SINGLETON then
                    (case storage_remove (storage s) i of
                       Some st \<Rightarrow> s\<lparr>storage := st\<rparr>
                     | None \<Rightarrow> s)
                  else s)
             | None \<Rightarrow> s))"
| "notify (NodeEvent n action) s =
     (if action = NODE_AVAILABLE then push (SearchNextBundleTask (getEID n)) s else s)"
| "notify (ConnectionEvent state peer) s =
     (if state = CONNECTION_UP then push (SearchNextBundleTask peer) s else s)"
| "notify OtherEvent s = s"

section \<open>Forwarding dispatcher\<close>

text \<open>
  Modelled from the spec: \<^verbatim>\<open>NeighborDatabase::get\<close> is missing. The spec's directory returns
  the entry of the neighbor and creates it, with empty sets, on first reference.
\<close>

definition db_get :: "NeighborDatabase \<Rightarrow> EID \<Rightarrow> NeighborEntry" where
  "db_get db e =
     (case db e of
        Some entry \<Rightarrow> entry
      | None \<Rightarrow> \<lparr>eid = e, known = {}, transit = {}\<rparr>)"

text \<open>
  \<^verbatim>\<open>transferTo\<close> is a member of the extension's base class and is missing, so the
  dispatcher takes it as a parameter: given the neighbor entry and a bundle it either
  raises an error or returns the updated entry.
\<close>

type_synonym transfer = "NeighborEntry \<Rightarrow> MetaBundle \<Rightarrow> error + NeighborEntry"

text \<open>
  The \<^verbatim>\<open>for\<close> loop over the candidates: \<^verbatim>\<open>AlreadyInTransitException\<close> is caught per
  bundle, any other error leaves the loop.
\<close>

fun transfer_all :: "transfer \<Rightarrow> NeighborEntry \<Rightarrow> MetaBundle list \<Rightarrow> error option \<times> NeighborEntry" where
  "transfer_all tr entry [] = (None, entry)"
| "transfer_all tr entry (m # ms) =
     (case tr entry m of
        Inr entry' \<Rightarrow> transfer_all tr entry' ms
      | Inl ex \<Rightarrow>
          (if ex = AlreadyInTransitException then transfer_all tr entry ms
           else (Some ex, entry)))"

text \<open>The query \<^verbatim>\<open>storage.get(filter)\<close> with the filter built for the neighbor's entry.\<close>

definition candidates :: "EID \<Rightarrow> BundleStorage \<Rightarrow> NeighborEntry \<Rightarrow> MetaBundle list" where
  "candidates local st entry = storage_query (shouldAdd local entry) (limit entry) st"

text \<open>
  The first \<^verbatim>\<open>try\<close> block of the loop body. A task that is not a
  \<^verbatim>\<open>SearchNextBundleTask\<close> raises \<^verbatim>\<open>bad_cast\<close>, which is caught; so are
  \<^verbatim>\<open>NoMoreTransfersAvailable\<close> and \<^verbatim>\<open>NeighborNotAvailableException\<close>. Any other error
  leaves the block. The entry is a reference into the database, so its updates stay.
\<close>

definition search :: "transfer \<Rightarrow> EID \<Rightarrow> Task \<Rightarrow> BundleStorage \<Rightarrow> NeighborDatabase
    \<Rightarrow> error option \<times> NeighborDatabase" where
  "search tr local t st db =
     (case t of
        ProcessBundleTask bundle origin \<Rightarrow> (None, db)
      | SearchNextBundleTask e \<Rightarrow>
          (case transfer_all tr (db_get db e) (candidates local st (db_get db e)) of
             (None, entry') \<Rightarrow> (None, db(e \<mapsto> entry'))
           | (Some ex, entry') \<Rightarrow>
               (if ex = NoMoreTransfersAvailable \<or> ex = NeighborNotAvailableException
                   \<or> ex = bad_cast
                then (None, db(e \<mapsto> entry'))
                else (Some ex, db(e \<mapsto> entry')))))"

text \<open>
  The second \<^verbatim>\<open>try\<close> block: a \<^verbatim>\<open>ProcessBundleTask\<close> pushes one search per neighbor of
  \<^verbatim>\<open>BundleCore::getNeighbors()\<close>, the parameter \<open>nl\<close> in iteration order.
\<close>

definition fanout :: "Node list \<Rightarrow> Task \<Rightarrow> Task list" where
  "fanout nl t =
     (case t of
        ProcessBundleTask bundle origin \<Rightarrow> map (\<lambda>n. SearchNextBundleTask (getEID n)) nl
      | SearchNextBundleTask e \<Rightarrow> [])"

text \<open>
  \<^verbatim>\<open>NeighborRoutingExtension::run\<close>. The model is sequential: no other thread pushes while
  the loop runs, so on an empty queue the blocking \<^verbatim>\<open>getnpop\<close> waits and the loop is still
  alive (\<open>Blocked\<close>). An error that reaches the outer \<^verbatim>\<open>catch\<close> is logged and the function
  returns (\<open>Returned\<close>).
\<close>

datatype Outcome = Blocked | Returned error

definition is_process :: "Task \<Rightarrow> bool" where
  "is_process t = (case t of ProcessBundleTask bundle origin \<Rightarrow> True | SearchNextBundleTask e \<Rightarrow> False)"

function run :: "transfer \<Rightarrow> EID \<Rightarrow> Node list \<Rightarrow> Extension \<Rightarrow> Outcome \<times> Extension" where
  "run tr local nl s =
     (case taskqueue s of
        [] \<Rightarrow> (Blocked, s)
      | t # q \<Rightarrow>
          (case search tr local t (storage s) (neighbordb s) of
             (Some ex, db') \<Rightarrow>
               (Returned ex,
                s\<lparr>taskqueue := q, neighbordb := db',
                  logged := logged s @ [neighbor_routing_failed ex]\<rparr>)
           | (None, db') \<Rightarrow>
               run tr local nl (s\<lparr>taskqueue := q @ fanout nl t, neighbordb := db'\<rparr>)))"
  by pat_completeness auto
termination
  by (relation "measures [\<lambda>(tr, local, nl, s). length (filter is_process (taskqueue s)),
                          \<lambda>(tr, local, nl, s). length (taskqueue s)]")
     (auto simp: fanout_def is_process_def comp_def split: Task.splits)

declare run.simps [simp del]

text \<open>
  Modelled from the spec: the directory's \<^verbatim>\<open>try_begin_transfer\<close>, which inserts the bundle
  identity into the in-transit set of the entry and fails if it is already there. With it
  \<open>transferTo\<close> is the submission step the spec describes for the dispatcher.
\<close>

definition try_begin_transfer :: "NeighborEntry \<Rightarrow> BundleID \<Rightarrow> error + NeighborEntry" where
  "try_begin_transfer entry i =
     (if i \<in> transit entry then Inl AlreadyInTransitException
      else Inr (entry\<lparr>transit := insert i (transit entry)\<rparr>))"

definition transferTo :: transfer where
  "transferTo entry m = try_begin_transfer entry (toBundleID m)"

section \<open>Example values\<close>

text \<open>
  The nodes and bundles of the scenarios: the local node \<^verbatim>\<open>dtn://A\<close>, the peers
  \<^verbatim>\<open>dtn://B/app\<close> and \<^verbatim>\<open>dtn://C/app\<close>, a singleton bundle \<open>bundle_X\<close> for \<^verbatim>\<open>dtn://B/app\<close>,
  a singleton bundle \<open>bundle_Z\<close> for the same endpoint whose hop count is used up, and a
  bundle \<open>bundle_G\<close> for a group endpoint on the local node.
\<close>

definition local_A :: EID where
  "local_A = EID ''dtn://A'' []"

definition peer_B :: EID where
  "peer_B = EID ''dtn://B'' ''app''"

definition peer_C :: EID where
  "peer_C = EID ''dtn://C'' ''app''"

definition bundle_X :: MetaBundle where
  "bundle_X = \<lparr>source = EID ''dtn://A'' ''src'', timestamp = 1, sequencenumber = 0,
     destination = peer_B, procflags = DESTINATION_IS_SINGLETON, hopcount = 5\<rparr>"

definition bundle_Z :: MetaBundle where
  "bundle_Z = \<lparr>source = EID ''dtn://A'' ''src'', timestamp = 2, sequencenumber = 0,
     destination = peer_B, procflags = DESTINATION_IS_SINGLETON, hopcount = 0\<rparr>"

definition bundle_G :: MetaBundle where
  "bundle_G = \<lparr>source = EID ''dtn://C'' ''src'', timestamp = 3, sequencenumber = 0,
     destination = EID ''dtn://A'' ''group'', procflags = 0, hopcount = 3\<rparr>"

definition entry_B :: NeighborEntry where
  "entry_B = \<lparr>eid = peer_B, known = {}, transit = {}\<rparr>"

definition state0 :: Extension where
  "state0 = \<lparr>storage = [bundle_X, bundle_G], neighbordb = Map.empty, taskqueue = [],
     raised = [], logged = []\<rparr>"

text \<open>The same state with two searches queued, for \<^verbatim>\<open>dtn://B/app\<close> and \<^verbatim>\<open>dtn://C/app\<close>.\<close>

definition state1 :: Extension where
  "state1 = state0\<lparr>taskqueue := [SearchNextBundleTask peer_B, SearchNextBundleTask peer_C]\<rparr>"

text \<open>A transfer operation whose every call fails with an input/output error.\<close>

definition transfer_fails :: transfer where
  "transfer_fails entry m = Inl (std_exception ''io'')"

text \<open>
  A store of twelve singleton bundles for \<^verbatim>\<open>dtn://B/app\<close>, told apart by their creation
  timestamps; the filter admits every one of them for that neighbor.
\<close>

definition bundle_N :: "nat \<Rightarrow> MetaBundle" where
  "bundle_N n = \<lparr>source = EID ''dtn://A'' ''src'', timestamp = n, sequencenumber = 0,
     destination = peer_B, procflags = DESTINATION_IS_SINGLETON, hopcount = 5\<rparr>"

definition store12 :: BundleStorage where
  "store12 = map bundle_N [0..<12]"

section \<open>The candidate filter: properties\<close>

lemma singleton_bundle_X: "get_flag bundle_X DESTINATION_IS_SINGLETON"
  by (simp add: get_flag_def bundle_X_def DESTINATION_IS_SINGLETON_def)

lemma singleton_bundle_Z: "get_flag bundle_Z DESTINATION_IS_SINGLETON"
  by (simp add: get_flag_def bundle_Z_def DESTINATION_IS_SINGLETON_def)

lemma not_singleton_bundle_G: "\<not> get_flag bundle_G DESTINATION_IS_SINGLETON"
  by (simp add: get_flag_def bundle_G_def)

text \<open>
  C4. A bundle whose hop count is zero is rejected by the candidate filter, whatever the
  neighbor entry and the local node are.
\<close>

theorem shouldAdd_hopcount_zero:
  "hopcount m = 0 \<Longrightarrow> \<not> shouldAdd local entry m"
  by (simp add: shouldAdd_def)

text \<open>C4 at \<open>bundle_Z\<close>, whose hop count is zero, for the neighbor \<^verbatim>\<open>dtn://B/app\<close>.\<close>

theorem shouldAdd_hopcount_zero_witness:
  "hopcount bundle_Z = 0 \<and> \<not> shouldAdd local_A entry_B bundle_Z"
  using shouldAdd_hopcount_zero [of bundle_Z local_A entry_B]
  by (simp add: bundle_Z_def)

text \<open>
  C3 as stated fails: \<open>bundle_Z\<close> is a singleton bundle, the neighbor's node equals its
  destination node and the local node does not, yet the filter rejects it, because its
  hop count is zero.
\<close>

theorem shouldAdd_singleton_counterexample:
  "get_flag bundle_Z DESTINATION_IS_SINGLETON
   \<and> getNode (eid entry_B) = getNode (destination bundle_Z)
   \<and> getNode (destination bundle_Z) \<noteq> local_A
   \<and> \<not> shouldAdd local_A entry_B bundle_Z"
  by (simp add: singleton_bundle_Z shouldAdd_def)
     (simp add: bundle_Z_def entry_B_def peer_B_def local_A_def getNode_def)

text \<open>
  C3, amended. A singleton bundle is admitted for a neighbor if and only if its hop count
  is not zero, the neighbor's node equals the destination node, the destination node is
  not the local node, and the bundle is not in the neighbor's known-bundle set.
\<close>

theorem shouldAdd_singleton:
  "get_flag m DESTINATION_IS_SINGLETON \<Longrightarrow>
   shouldAdd local entry m =
     (hopcount m \<noteq> 0 \<and> getNode (eid entry) = getNode (destination m)
      \<and> getNode (destination m) \<noteq> local \<and> \<not> has entry m)"
  by (auto simp add: shouldAdd_def)

text \<open>The amended C3 at \<open>bundle_X\<close>, which is admitted for \<^verbatim>\<open>dtn://B/app\<close>.\<close>

theorem shouldAdd_singleton_witness:
  "get_flag bundle_X DESTINATION_IS_SINGLETON \<and> shouldAdd local_A entry_B bundle_X"
  using shouldAdd_singleton [OF singleton_bundle_X, of local_A entry_B] singleton_bundle_X
  by (simp add: bundle_X_def entry_B_def peer_B_def local_A_def getNode_def has_def)

text \<open>
  C10. For a bundle whose destination-is-singleton flag is not set the filter looks
  neither at the local node nor at the destination node: the bundle is admitted for any
  neighbor exactly when its hop count is not zero and the neighbor's known-bundle set
  does not hold it.
\<close>

theorem shouldAdd_not_singleton:
  "\<not> get_flag m DESTINATION_IS_SINGLETON \<Longrightarrow>
   shouldAdd local entry m = (hopcount m \<noteq> 0 \<and> \<not> has entry m)"
  by (simp add: shouldAdd_def)

text \<open>
  C10 at \<open>bundle_G\<close>: its destination node is the local node, and it is admitted for the
  neighbor \<^verbatim>\<open>dtn://B/app\<close>.
\<close>

theorem shouldAdd_not_singleton_witness:
  "\<not> get_flag bundle_G DESTINATION_IS_SINGLETON
   \<and> getNode (destination bundle_G) = local_A
   \<and> shouldAdd local_A entry_B bundle_G"
  using shouldAdd_not_singleton [OF not_singleton_bundle_G, of local_A entry_B]
    not_singleton_bundle_G
  by (simp add: bundle_G_def entry_B_def local_A_def getNode_def has_def)

section \<open>The event translator: properties\<close>

subsection \<open>The store\<close>

lemma storage_get_removed: "storage_get (filter (\<lambda>m. toBundleID m \<noteq> i) st) i = None"
  by (simp add: storage_get_def find_None_iff)

lemma storage_remove_present:
  "storage_get st i \<noteq> None \<Longrightarrow>
   storage_remove st i = Some (filter (\<lambda>m. toBundleID m \<noteq> i) st)"
  by (auto simp add: storage_remove_def)

lemma storage_remove_absent: "storage_get st i = None \<Longrightarrow> storage_remove st i = None"
  by (simp add: storage_remove_def)

lemma bundle_G_not_bundle_X: "toBundleID bundle_G \<noteq> toBundleID bundle_X"
  by (simp add: toBundleID_def bundle_X_def bundle_G_def)

lemma storage_get_bundle_X: "storage_get (storage state0) (toBundleID bundle_X) = Some bundle_X"
  by (simp add: storage_get_def state0_def)

lemma storage_get_bundle_Z: "storage_get (storage state0) (toBundleID bundle_Z) = None"
  by (simp add: storage_get_def state0_def toBundleID_def bundle_X_def bundle_G_def bundle_Z_def)

lemma storage_state0_without_bundle_X:
  "filter (\<lambda>m. toBundleID m \<noteq> toBundleID bundle_X) (storage state0) = [bundle_G]"
  using bundle_G_not_bundle_X by (simp add: state0_def)

lemma state0_empty: "taskqueue state0 = []" "raised state0 = []" "logged state0 = []"
  by (simp_all add: state0_def)

lemma node_bundle_X: "getNode (destination bundle_X) = getNode peer_B"
  by (simp add: bundle_X_def)

subsection \<open>Aborted transfers\<close>

text \<open>
  C7. A transfer-aborted event with reason connection-down leaves the whole state as it
  is: the store is not changed and no task is pushed.
\<close>

theorem notify_connection_down:
  "notify (TransferAbortedEvent peer i REASON_CONNECTION_DOWN) s = s"
  by simp

text \<open>
  C6. On a transfer-aborted event with reason refused: if the bundle is in the store, its
  destination node equals the peer's node and it is a singleton bundle, the bundle is
  removed from the store (and is absent afterwards) and a search for the peer is pushed,
  nothing else changes; in every other case, the bundle being absent from the store
  included, the only change is the pushed search for the peer.
\<close>

theorem notify_refused:
  "(storage_get (storage s) i = Some meta
      \<and> getNode (destination meta) = getNode peer
      \<and> get_flag meta DESTINATION_IS_SINGLETON \<longrightarrow>
        notify (TransferAbortedEvent peer i REASON_REFUSED) s =
          s\<lparr>storage := filter (\<lambda>m. toBundleID m \<noteq> i) (storage s),
            taskqueue := taskqueue s @ [SearchNextBundleTask peer]\<rparr>
        \<and> storage_get (storage (notify (TransferAbortedEvent peer i REASON_REFUSED) s)) i = None)
   \<and> (\<not> (\<exists>m. storage_get (storage s) i = Some m
            \<and> getNode (destination m) = getNode peer
            \<and> get_flag m DESTINATION_IS_SINGLETON) \<longrightarrow>
        notify (TransferAbortedEvent peer i REASON_REFUSED) s =
          s\<lparr>taskqueue := taskqueue s @ [SearchNextBundleTask peer]\<rparr>)"
  by (auto simp add: push_def storage_remove_present storage_get_removed split: option.splits)

text \<open>
  C6 on the store holding \<open>bundle_X\<close> and \<open>bundle_G\<close>: refused by \<^verbatim>\<open>dtn://B/app\<close>,
  \<open>bundle_X\<close> is removed; refused by \<^verbatim>\<open>dtn://C/app\<close>, it stays; for \<open>bundle_Z\<close>, which is
  not in the store, the store stays as it is. A search for the peer is queued each time.
\<close>

theorem notify_refused_witness:
  "notify (TransferAbortedEvent peer_B (toBundleID bundle_X) REASON_REFUSED) state0 =
     state0\<lparr>storage := [bundle_G], taskqueue := [SearchNextBundleTask peer_B]\<rparr>
   \<and> notify (TransferAbortedEvent peer_C (toBundleID bundle_X) REASON_REFUSED) state0 =
     state0\<lparr>taskqueue := [SearchNextBundleTask peer_C]\<rparr>
   \<and> notify (TransferAbortedEvent peer_B (toBundleID bundle_Z) REASON_REFUSED) state0 =
     state0\<lparr>taskqueue := [SearchNextBundleTask peer_B]\<rparr>"
proof -
  have other_node: "getNode (destination bundle_X) \<noteq> getNode peer_C"
    by (simp add: bundle_X_def peer_B_def peer_C_def getNode_def)
  have removed: "notify (TransferAbortedEvent peer_B (toBundleID bundle_X) REASON_REFUSED) state0 =
     state0\<lparr>storage := [bundle_G], taskqueue := [SearchNextBundleTask peer_B]\<rparr>"
  proof -
    from notify_refused [of state0 "toBundleID bundle_X" bundle_X peer_B]
      storage_get_bundle_X node_bundle_X singleton_bundle_X
    have "notify (TransferAbortedEvent peer_B (toBundleID bundle_X) REASON_REFUSED) state0 =
          state0\<lparr>storage := filter (\<lambda>m. toBundleID m \<noteq> toBundleID bundle_X) (storage state0),
            taskqueue := taskqueue state0 @ [SearchNextBundleTask peer_B]\<rparr>"
      by blast
    then show ?thesis
      by (simp only: storage_state0_without_bundle_X state0_empty append_Nil)
  qed
  have kept: "notify (TransferAbortedEvent peer_C (toBundleID bundle_X) REASON_REFUSED) state0 =
     state0\<lparr>taskqueue := [SearchNextBundleTask peer_C]\<rparr>"
  proof -
    have "\<not> (\<exists>m. storage_get (storage state0) (toBundleID bundle_X) = Some m
            \<and> getNode (destination m) = getNode peer_C
            \<and> get_flag m DESTINATION_IS_SINGLETON)"
      using storage_get_bundle_X other_node by simp
    with notify_refused [of state0 "toBundleID bundle_X" bundle_X peer_C]
    have "notify (TransferAbortedEvent peer_C (toBundleID bundle_X) REASON_REFUSED) state0 =
          state0\<lparr>taskqueue := taskqueue state0 @ [SearchNextBundleTask peer_C]\<rparr>"
      by blast
    then show ?thesis by (simp only: state0_empty append_Nil)
  qed
  have missing: "notify (TransferAbortedEvent peer_B (toBundleID bundle_Z) REASON_REFUSED) state0 =
     state0\<lparr>taskqueue := [SearchNextBundleTask peer_B]\<rparr>"
  proof -
    have "\<not> (\<exists>m. storage_get (storage state0) (toBundleID bundle_Z) = Some m
            \<and> getNode (destination m) = getNode peer_B
            \<and> get_flag m DESTINATION_IS_SINGLETON)"
      using storage_get_bundle_Z by simp
    with notify_refused [of state0 "toBundleID bundle_Z" bundle_Z peer_B]
    have "notify (TransferAbortedEvent peer_B (toBundleID bundle_Z) REASON_REFUSED) state0 =
          state0\<lparr>taskqueue := taskqueue state0 @ [SearchNextBundleTask peer_B]\<rparr>"
      by blast
    then show ?thesis by (simp only: state0_empty append_Nil)
  qed
  from removed kept missing show ?thesis by (intro conjI)
qed

subsection \<open>Completed transfers\<close>

text \<open>
  C1 as stated fails: \<open>bundle_G\<close> is not a singleton bundle, so the delivery condition
  does not hold, and after the transfer-completed event for it and the peer
  \<^verbatim>\<open>dtn://B/app\<close> no search for that peer is in the task queue.
\<close>

theorem notify_completed_otherwise_counterexample:
  "\<not> get_flag bundle_G DESTINATION_IS_SINGLETON
   \<and> SearchNextBundleTask peer_B
       \<notin> set (taskqueue (notify (TransferCompletedEvent peer_B bundle_G) state0))"
  by (simp add: not_singleton_bundle_G) (simp add: state0_def)

text \<open>
  C1, amended. A transfer-completed event whose bundle does not satisfy the delivery
  condition changes nothing: no task is pushed and the store is left as it is.
\<close>

theorem notify_completed_otherwise:
  "\<not> (getNode (destination meta) = getNode peer \<and> get_flag meta DESTINATION_IS_SINGLETON) \<Longrightarrow>
   notify (TransferCompletedEvent peer meta) s = s"
  by auto

text \<open>The amended C1 at \<open>bundle_G\<close> and the peer \<^verbatim>\<open>dtn://B/app\<close>.\<close>

theorem notify_completed_otherwise_witness:
  "notify (TransferCompletedEvent peer_B bundle_G) state0 = state0"
  using notify_completed_otherwise [of bundle_G peer_B state0] not_singleton_bundle_G
  by simp

lemma notify_completed_present:
  assumes "getNode (destination meta) = getNode peer"
    and "get_flag meta DESTINATION_IS_SINGLETON"
    and "storage_get (storage s) (toBundleID meta) \<noteq> None"
  shows "notify (TransferCompletedEvent peer meta) s =
           s\<lparr>storage := filter (\<lambda>m. toBundleID m \<noteq> toBundleID meta) (storage s),
             taskqueue := taskqueue s @ [SearchNextBundleTask peer],
             raised := raised s @ [BundleEvent meta BUNDLE_DELETED DEPLETED_STORAGE],
             logged := logged s @ [singleton_bundle_delivered_and_removed meta]\<rparr>"
  using assms by (simp add: storage_remove_present push_def)

lemma notify_completed_absent:
  assumes "getNode (destination meta) = getNode peer"
    and "get_flag meta DESTINATION_IS_SINGLETON"
    and "storage_get (storage s) (toBundleID meta) = None"
  shows "notify (TransferCompletedEvent peer meta) s =
           s\<lparr>taskqueue := taskqueue s @ [SearchNextBundleTask peer]\<rparr>"
  using assms by (simp add: storage_remove_absent push_def)

text \<open>
  C5. Let a singleton bundle whose destination node equals the peer's node be in the
  store. The transfer-completed event removes it from the store, raises one bundle event
  for it and pushes a search for the peer; the bundle is absent afterwards. A second,
  duplicate event then meets the not-found outcome: the store, the raised events and the
  log stay as they are, and a second search for the peer is pushed.
\<close>

theorem notify_completed_delivery:
  assumes "getNode (destination meta) = getNode peer"
    and "get_flag meta DESTINATION_IS_SINGLETON"
    and "storage_get (storage s) (toBundleID meta) \<noteq> None"
  shows "notify (TransferCompletedEvent peer meta) s =
           s\<lparr>storage := filter (\<lambda>m. toBundleID m \<noteq> toBundleID meta) (storage s),
             taskqueue := taskqueue s @ [SearchNextBundleTask peer],
             raised := raised s @ [BundleEvent meta BUNDLE_DELETED DEPLETED_STORAGE],
             logged := logged s @ [singleton_bundle_delivered_and_removed meta]\<rparr>
       \<and> storage_get (storage (notify (TransferCompletedEvent peer meta) s)) (toBundleID meta) = None
       \<and> notify (TransferCompletedEvent peer meta) (notify (TransferCompletedEvent peer meta) s) =
           (notify (TransferCompletedEvent peer meta) s)
             \<lparr>taskqueue := taskqueue s @ [SearchNextBundleTask peer, SearchNextBundleTask peer]\<rparr>"
proof -
  let ?ev = "TransferCompletedEvent peer meta"
  note first = notify_completed_present [OF assms]
  have gone: "storage_get (storage (notify ?ev s)) (toBundleID meta) = None"
    unfolding first by (simp add: storage_get_removed)
  have queue: "taskqueue (notify ?ev s) = taskqueue s @ [SearchNextBundleTask peer]"
    unfolding first by simp
  have second: "notify ?ev (notify ?ev s) =
      (notify ?ev s)\<lparr>taskqueue := taskqueue s @ [SearchNextBundleTask peer, SearchNextBundleTask peer]\<rparr>"
    using notify_completed_absent [OF assms(1,2) gone]
    by (simp only: queue append_assoc append_Cons append_Nil)
  from first gone second show ?thesis by (intro conjI)
qed

text \<open>
  C5 at \<open>bundle_X\<close> delivered to \<^verbatim>\<open>dtn://B/app\<close>: after the first event the store holds
  \<open>bundle_G\<close> only and one bundle event is raised; the duplicate event only adds the
  second search.
\<close>

theorem notify_completed_delivery_witness:
  "storage (notify (TransferCompletedEvent peer_B bundle_X) state0) = [bundle_G]
   \<and> raised (notify (TransferCompletedEvent peer_B bundle_X) state0)
       = [BundleEvent bundle_X BUNDLE_DELETED DEPLETED_STORAGE]
   \<and> notify (TransferCompletedEvent peer_B bundle_X)
         (notify (TransferCompletedEvent peer_B bundle_X) state0)
       = (notify (TransferCompletedEvent peer_B bundle_X) state0)
           \<lparr>taskqueue := [SearchNextBundleTask peer_B, SearchNextBundleTask peer_B]\<rparr>"
proof -
  have present: "storage_get (storage state0) (toBundleID bundle_X) \<noteq> None"
    by (simp add: storage_get_bundle_X)
  note delivery = notify_completed_delivery [OF node_bundle_X singleton_bundle_X present]
  have first: "storage (notify (TransferCompletedEvent peer_B bundle_X) state0) = [bundle_G]"
    by (simp only: delivery [THEN conjunct1]) (simp add: storage_state0_without_bundle_X)
  have report: "raised (notify (TransferCompletedEvent peer_B bundle_X) state0)
       = [BundleEvent bundle_X BUNDLE_DELETED DEPLETED_STORAGE]"
    by (simp only: delivery [THEN conjunct1]) (simp add: state0_empty)
  have second: "notify (TransferCompletedEvent peer_B bundle_X)
         (notify (TransferCompletedEvent peer_B bundle_X) state0)
       = (notify (TransferCompletedEvent peer_B bundle_X) state0)
           \<lparr>taskqueue := [SearchNextBundleTask peer_B, SearchNextBundleTask peer_B]\<rparr>"
    using delivery [THEN conjunct2, THEN conjunct2] by (simp only: state0_empty append_Nil)
  from first report second show ?thesis by (intro conjI)
qed

section \<open>The forwarding dispatcher: properties\<close>

subsection \<open>The transfer loop and the search\<close>

lemma transfer_all_error:
  "transfer_all tr entry ms = (Some ex, entry') \<Longrightarrow> ex \<noteq> AlreadyInTransitException"
  by (induction ms arbitrary: entry) (auto split: sum.splits if_splits)

lemma transfer_all_preserves:
  assumes "\<And>entry m entry'. tr entry m = Inr entry' \<Longrightarrow>
             eid entry' = eid entry \<and> known entry' = known entry"
  shows "transfer_all tr entry ms = (r, entry') \<Longrightarrow>
         eid entry' = eid entry \<and> known entry' = known entry"
proof (induction ms arbitrary: entry)
  case Nil
  then show ?case by simp
next
  case (Cons m ms)
  show ?case
  proof (cases "tr entry m")
    case (Inl ex)
    with Cons show ?thesis by (auto split: if_splits)
  next
    case (Inr e1)
    with Cons.prems have "transfer_all tr e1 ms = (r, entry')" by simp
    from Cons.IH [OF this] assms [OF Inr] show ?thesis by simp
  qed
qed

lemma shouldAdd_cong:
  "eid e' = eid e \<Longrightarrow> known e' = known e \<Longrightarrow> shouldAdd local e' = shouldAdd local e"
  by (rule ext) (simp add: shouldAdd_def has_def)

lemma candidates_cong:
  "eid e' = eid e \<Longrightarrow> known e' = known e \<Longrightarrow> candidates local st e' = candidates local st e"
  using shouldAdd_cong [of e' e local] by (simp add: candidates_def limit_def)

lemma search_entry:
  "search tr local (SearchNextBundleTask e) st db = (r, db') \<Longrightarrow>
   \<exists>r'. transfer_all tr (db_get db e) (candidates local st (db_get db e)) = (r', db_get db' e)"
  by (auto simp add: search_def db_get_def split: prod.splits option.splits if_splits)

lemma transferTo_preserves:
  "transferTo entry m = Inr entry' \<Longrightarrow> eid entry' = eid entry \<and> known entry' = known entry"
  by (auto simp add: transferTo_def try_begin_transfer_def split: if_splits)

lemma candidates_state0:
  "candidates local_A (storage state0) (db_get Map.empty peer_B) = [bundle_X, bundle_G]"
  by (simp add: candidates_def storage_query_def limit_def state0_def db_get_def shouldAdd_def
      singleton_bundle_X not_singleton_bundle_G has_def)
     (simp add: bundle_X_def bundle_G_def peer_B_def local_A_def getNode_def)

lemma search_state0:
  "search transferTo local_A (SearchNextBundleTask peer_B) (storage state0) Map.empty =
     (None, [peer_B \<mapsto> \<lparr>eid = peer_B, known = {},
                          transit = {toBundleID bundle_G, toBundleID bundle_X}\<rparr>])"
  using bundle_G_not_bundle_X
  by (simp add: search_def candidates_state0)
     (simp add: db_get_def transferTo_def try_begin_transfer_def)

lemma state1_fields:
  "taskqueue state1 = [SearchNextBundleTask peer_B, SearchNextBundleTask peer_C]"
  "storage state1 = storage state0"
  "neighbordb state1 = Map.empty"
  "logged state1 = []"
  by (simp_all add: state1_def state0_def)

lemma transfer_all_fails:
  "transfer_all transfer_fails (db_get (neighbordb state1) peer_B)
     (candidates local_A (storage state1) (db_get (neighbordb state1) peer_B)) =
   (Some (std_exception ''io''), entry_B)"
  unfolding state1_fields candidates_state0
  by (simp add: transfer_fails_def db_get_def entry_B_def)

subsection \<open>The bound of the query\<close>

lemma transfer_all_transferTo:
  "transfer_all transferTo entry ms =
     (None, entry\<lparr>transit := transit entry \<union> toBundleID ` set ms\<rparr>)"
proof (induction ms arbitrary: entry)
  case Nil
  then show ?case by simp
next
  case (Cons m ms)
  show ?case
  proof (cases "toBundleID m \<in> transit entry")
    case True
    then have "transit entry \<union> toBundleID ` set (m # ms) = transit entry \<union> toBundleID ` set ms"
      by auto
    with True Cons.IH [of entry] show ?thesis
      by (simp add: transferTo_def try_begin_transfer_def)
  next
    case False
    have "insert (toBundleID m) (transit entry) \<union> toBundleID ` set ms
          = transit entry \<union> toBundleID ` set (m # ms)"
      by auto
    with False Cons.IH [of "entry\<lparr>transit := insert (toBundleID m) (transit entry)\<rparr>"]
    show ?thesis
      by (simp add: transferTo_def try_begin_transfer_def)
  qed
qed

lemma shouldAdd_bundle_N: "shouldAdd local_A (db_get Map.empty peer_B) (bundle_N n)"
  by (simp add: shouldAdd_def get_flag_def bundle_N_def DESTINATION_IS_SINGLETON_def has_def
      db_get_def peer_B_def local_A_def getNode_def)

lemma filter_store12: "filter (shouldAdd local_A (db_get Map.empty peer_B)) store12 = store12"
  by (simp add: store12_def shouldAdd_bundle_N)

lemma take_store12: "take 10 store12 = map bundle_N [0..<10]"
  by (simp add: store12_def take_map)

lemma inj_bundle_N: "inj (\<lambda>n. toBundleID (bundle_N n))"
  by (rule injI) (simp add: toBundleID_def bundle_N_def)

text \<open>
  C9. The filter's result bound is 10, and every search supplies it to the store's bounded
  query: for any transfer step, executing a \<^verbatim>\<open>SearchNextBundleTask\<close> runs the transfer loop
  over the result of the store query with the filter of the neighbor's entry and the bound
  10, a list of at most 10 bundles. With the directory's transfer step the search, and the
  worker loop run on that single task, reserve in the in-transit set exactly the first 10
  bundles of the store that the filter admits.
\<close>

theorem search_query_limit_10:
  "limit entry = 10
   \<and> candidates local st entry = storage_query (shouldAdd local entry) 10 st
   \<and> search tr local (SearchNextBundleTask e) st db =
       (case transfer_all tr (db_get db e)
               (storage_query (shouldAdd local (db_get db e)) 10 st) of
          (None, entry') \<Rightarrow> (None, db(e \<mapsto> entry'))
        | (Some ex, entry') \<Rightarrow>
            (if ex = NoMoreTransfersAvailable \<or> ex = NeighborNotAvailableException
                \<or> ex = bad_cast
             then (None, db(e \<mapsto> entry'))
             else (Some ex, db(e \<mapsto> entry'))))
   \<and> length (storage_query (shouldAdd local (db_get db e)) 10 st) \<le> 10
   \<and> search transferTo local (SearchNextBundleTask e) st db =
       (None, db(e \<mapsto> (db_get db e)
          \<lparr>transit := transit (db_get db e)
             \<union> toBundleID ` set (take 10 (filter (shouldAdd local (db_get db e)) st))\<rparr>))
   \<and> run transferTo local nl (s\<lparr>taskqueue := [SearchNextBundleTask e]\<rparr>) =
       (Blocked,
        s\<lparr>taskqueue := [],
          neighbordb := (neighbordb s)(e \<mapsto> (db_get (neighbordb s) e)
            \<lparr>transit := transit (db_get (neighbordb s) e)
               \<union> toBundleID ` set (take 10
                    (filter (shouldAdd local (db_get (neighbordb s) e)) (storage s)))\<rparr>)\<rparr>)"
proof -
  have bound: "limit entry = 10"
    by (simp add: limit_def)
  have cands: "candidates local st entry = storage_query (shouldAdd local entry) 10 st"
    by (simp add: candidates_def limit_def)
  have query: "search tr local (SearchNextBundleTask e) st db =
       (case transfer_all tr (db_get db e)
               (storage_query (shouldAdd local (db_get db e)) 10 st) of
          (None, entry') \<Rightarrow> (None, db(e \<mapsto> entry'))
        | (Some ex, entry') \<Rightarrow>
            (if ex = NoMoreTransfersAvailable \<or> ex = NeighborNotAvailableException
                \<or> ex = bad_cast
             then (None, db(e \<mapsto> entry'))
             else (Some ex, db(e \<mapsto> entry'))))"
    by (simp add: search_def candidates_def limit_def)
  have len: "length (storage_query (shouldAdd local (db_get db e)) 10 st) \<le> 10"
    by (simp add: storage_query_def)
  have reserve: "search transferTo local (SearchNextBundleTask e) st db =
       (None, db(e \<mapsto> (db_get db e)
          \<lparr>transit := transit (db_get db e)
             \<union> toBundleID ` set (take 10 (filter (shouldAdd local (db_get db e)) st))\<rparr>))" for st db
    by (simp add: search_def candidates_def limit_def storage_query_def transfer_all_transferTo)
  have loop: "run transferTo local nl (s\<lparr>taskqueue := [SearchNextBundleTask e]\<rparr>) =
       (Blocked,
        s\<lparr>taskqueue := [],
          neighbordb := (neighbordb s)(e \<mapsto> (db_get (neighbordb s) e)
            \<lparr>transit := transit (db_get (neighbordb s) e)
               \<union> toBundleID ` set (take 10
                    (filter (shouldAdd local (db_get (neighbordb s) e)) (storage s)))\<rparr>)\<rparr>)"
    by (subst run.simps, simp add: reserve fanout_def, subst run.simps, simp)
  from bound cands query len reserve loop show ?thesis by (intro conjI)
qed

text \<open>
  C9 on the store of twelve bundles: the filter admits all twelve for \<^verbatim>\<open>dtn://B/app\<close>, and
  the search reserves the ten with the timestamps 0 to 9, ten distinct identities.
\<close>

theorem search_query_limit_10_witness:
  "length (filter (shouldAdd local_A (db_get Map.empty peer_B)) store12) = 12
   \<and> search transferTo local_A (SearchNextBundleTask peer_B) store12 Map.empty =
       (None, [peer_B \<mapsto> \<lparr>eid = peer_B, known = {},
                 transit = (\<lambda>n. toBundleID (bundle_N n)) ` {0..<10}\<rparr>])
   \<and> card ((\<lambda>n. toBundleID (bundle_N n)) ` {0..<10}) = 10"
proof -
  have all: "length (filter (shouldAdd local_A (db_get Map.empty peer_B)) store12) = 12"
    by (simp add: filter_store12) (simp add: store12_def)
  have ids: "toBundleID ` set (map bundle_N [0..<10]) = (\<lambda>n. toBundleID (bundle_N n)) ` {0..<10}"
    by (simp add: image_image)
  have "search transferTo local_A (SearchNextBundleTask peer_B) store12 Map.empty =
       (None, Map.empty(peer_B \<mapsto> (db_get Map.empty peer_B)
          \<lparr>transit := transit (db_get Map.empty peer_B)
             \<union> toBundleID ` set (take 10 (filter (shouldAdd local_A (db_get Map.empty peer_B)) store12))\<rparr>))"
    by (rule search_query_limit_10 [where db = Map.empty and e = peer_B and local = local_A
          and st = store12,
          THEN conjunct2, THEN conjunct2, THEN conjunct2, THEN conjunct2, THEN conjunct1])
  then have ten: "search transferTo local_A (SearchNextBundleTask peer_B) store12 Map.empty =
       (None, [peer_B \<mapsto> \<lparr>eid = peer_B, known = {},
                 transit = (\<lambda>n. toBundleID (bundle_N n)) ` {0..<10}\<rparr>])"
    by (simp only: filter_store12 take_store12 ids) (simp add: db_get_def)
  have "card ((\<lambda>n. toBundleID (bundle_N n)) ` {0..<10}) = card {0..<10::nat}"
    by (rule card_image) (rule inj_on_subset [OF inj_bundle_N], simp)
  then have count: "card ((\<lambda>n. toBundleID (bundle_N n)) ` {0..<10}) = 10"
    by simp
  from all ten count show ?thesis by (intro conjI)
qed


subsection \<open>Errors in the worker loop\<close>

text \<open>
  C2 as stated fails. The queue holds the searches for \<^verbatim>\<open>dtn://B/app\<close> and
  \<^verbatim>\<open>dtn://C/app\<close>, and every transfer fails with an input/output error. The first task
  raises that error; the worker loop returns, and the second task is still in the queue,
  never processed.
\<close>

theorem run_continues_counterexample:
  "fst (run transfer_fails local_A [] state1) = Returned (std_exception ''io'')
   \<and> taskqueue (snd (run transfer_fails local_A [] state1)) = [SearchNextBundleTask peer_C]"
proof -
  have "search transfer_fails local_A (SearchNextBundleTask peer_B) (storage state1) (neighbordb state1)
    = (Some (std_exception ''io''), (neighbordb state1)(peer_B \<mapsto> entry_B))"
    by (simp add: search_def transfer_all_fails)
  then have "run transfer_fails local_A [] state1 =
     (Returned (std_exception ''io''),
      state1\<lparr>taskqueue := [SearchNextBundleTask peer_C],
        neighbordb := (neighbordb state1)(peer_B \<mapsto> entry_B),
        logged := logged state1 @ [neighbor_routing_failed (std_exception ''io'')]\<rparr>)"
    by (subst run.simps) (simp add: state1_fields(1))
  then show ?thesis by simp
qed

text \<open>
  C2, amended. When the search at the head of the queue meets, in its transfer loop, an
  error other than no-more-transfers, neighbor-not-available and \<^verbatim>\<open>bad_cast\<close>
  (already-in-transit never leaves the transfer loop), the worker loop logs the error and
  returns: the failing task is discarded, the entry keeps the updates made so far, and the
  tasks behind it stay in the queue unprocessed.
\<close>

theorem run_unexpected_error:
  assumes "taskqueue s = SearchNextBundleTask e # q"
    and "transfer_all tr (db_get (neighbordb s) e)
           (candidates local (storage s) (db_get (neighbordb s) e)) = (Some ex, entry')"
    and "ex \<noteq> NoMoreTransfersAvailable"
    and "ex \<noteq> NeighborNotAvailableException"
    and "ex \<noteq> bad_cast"
  shows "run tr local nl s =
           (Returned ex,
            s\<lparr>taskqueue := q, neighbordb := (neighbordb s)(e \<mapsto> entry'),
              logged := logged s @ [neighbor_routing_failed ex]\<rparr>)"
  using assms by (subst run.simps) (simp add: search_def)

text \<open>The amended C2 on the queue and the failing transfer of the counterexample.\<close>

theorem run_unexpected_error_witness:
  "run transfer_fails local_A [] state1 =
   (Returned (std_exception ''io''),
    state1\<lparr>taskqueue := [SearchNextBundleTask peer_C],
      neighbordb := [peer_B \<mapsto> entry_B],
      logged := [neighbor_routing_failed (std_exception ''io'')]\<rparr>)"
proof -
  have "run transfer_fails local_A [] state1 =
   (Returned (std_exception ''io''),
    state1\<lparr>taskqueue := [SearchNextBundleTask peer_C],
      neighbordb := (neighbordb state1)(peer_B \<mapsto> entry_B),
      logged := logged state1 @ [neighbor_routing_failed (std_exception ''io'')]\<rparr>)"
    by (rule run_unexpected_error [OF state1_fields(1) transfer_all_fails]) simp_all
  then show ?thesis by (simp only: state1_fields append_Nil)
qed

subsection \<open>Searching twice\<close>

text \<open>
  C8 as stated fails. After the search for \<^verbatim>\<open>dtn://B/app\<close> with the directory's transfer
  step, \<open>bundle_X\<close> is reserved in the in-transit set of the neighbor's entry, and the
  candidate query of the next search still returns it: the reservation does not suppress
  it.
\<close>

theorem search_twice_counterexample:
  "toBundleID bundle_X
     \<in> transit (db_get (snd (search transferTo local_A (SearchNextBundleTask peer_B)
                               (storage state0) Map.empty)) peer_B)
   \<and> bundle_X
     \<in> set (candidates local_A (storage state0)
              (db_get (snd (search transferTo local_A (SearchNextBundleTask peer_B)
                              (storage state0) Map.empty)) peer_B))"
proof -
  let ?e = "\<lparr>eid = peer_B, known = {}, transit = {toBundleID bundle_G, toBundleID bundle_X}\<rparr>"
  have entry: "db_get (snd (search transferTo local_A (SearchNextBundleTask peer_B)
                   (storage state0) Map.empty)) peer_B = ?e"
    by (simp add: search_state0 db_get_def)
  have "candidates local_A (storage state0) ?e =
        candidates local_A (storage state0) (db_get Map.empty peer_B)"
    by (rule candidates_cong) (simp_all add: db_get_def)
  then show ?thesis
    by (simp add: entry candidates_state0)
qed

text \<open>
  C8, amended. Let the transfer step leave the identifier and the known-bundle set of an
  entry as they are. Then, with the store unchanged, the candidate query for neighbor N
  after a search for N returns the same list as the query of that search, hence a subset
  of it: what the first search reserved in the in-transit set has no effect on the
  second query.
\<close>

theorem search_twice_candidates:
  assumes "\<And>entry m entry'. tr entry m = Inr entry' \<Longrightarrow>
             eid entry' = eid entry \<and> known entry' = known entry"
    and "search tr local (SearchNextBundleTask e) st db = (r, db')"
  shows "candidates local st (db_get db' e) = candidates local st (db_get db e)
       \<and> set (candidates local st (db_get db' e)) \<subseteq> set (candidates local st (db_get db e))"
proof -
  from search_entry [OF assms(2)] obtain r' where
    "transfer_all tr (db_get db e) (candidates local st (db_get db e)) = (r', db_get db' e)" ..
  from transfer_all_preserves [OF assms(1) this]
  have "eid (db_get db' e) = eid (db_get db e) \<and> known (db_get db' e) = known (db_get db e)"
    by simp
  then have "candidates local st (db_get db' e) = candidates local st (db_get db e)"
    by (intro candidates_cong) simp_all
  then show ?thesis by simp
qed

text \<open>
  The amended C8 for the directory's transfer step and the neighbor \<^verbatim>\<open>dtn://B/app\<close>: the
  query after the search returns \<open>bundle_X\<close> and \<open>bundle_G\<close>, as the first one did.
\<close>

theorem search_twice_candidates_witness:
  "candidates local_A (storage state0)
     (db_get (snd (search transferTo local_A (SearchNextBundleTask peer_B)
                     (storage state0) Map.empty)) peer_B)
   = [bundle_X, bundle_G]"
proof -
  have "search transferTo local_A (SearchNextBundleTask peer_B) (storage state0) Map.empty =
      (fst (search transferTo local_A (SearchNextBundleTask peer_B) (storage state0) Map.empty),
       snd (search transferTo local_A (SearchNextBundleTask peer_B) (storage state0) Map.empty))"
    by simp
  from search_twice_candidates [OF transferTo_preserves this]
  show ?thesis by (simp only: candidates_state0)
qed

end
